theory Spec2Isabelle
  imports Main "HOL-Library.Word"
begin

unbundle bit_operations_syntax

section \<open>Results of a Go call\<close>

text \<open>
  A Go \<open>error\<close> is either built by \<open>fmt.Errorf\<close> from a fixed format of the validator
  (the message is rendered), or it wraps another error under one of the format constants of
  package \<open>webhook\<close>, whose text is not part of \<open>validator.go\<close>: the wrapper keeps the
  format, the string arguments and the wrapped error apart.
\<close>

datatype error =
    Error string
  | Wrapped string "string list" error

text \<open>
  A validator method returns \<open>nil\<close> (\<open>Ok\<close>), returns an error (\<open>Err\<close>), or panics
  (\<open>Panic\<close>, with the panic's message): \<open>netip.Addr.As4\<close> panics on an address that has
  no 4-byte form.
\<close>

datatype result = Ok | Err error | Panic string

section \<open>Package \<open>net/netip\<close>: addresses\<close>

type_synonym byte = "8 word"

text \<open>
  \<open>netip.Addr\<close> is a 128-bit value (two 64-bit halves) with a tag: the zero value (not
  valid), an IPv4 address, or an IPv6 address with a zone (the empty zone is "no zone").
  Go keeps an IPv4 address as \<open>::ffff:a.b.c.d\<close> under the tag \<open>z4\<close>; here it is the
  32-bit value under \<open>V4\<close>. Go's \<open>==\<close> on \<open>Addr\<close> compares the 128 bits and the tag, which
  is the equality of this datatype: \<open>V4 v\<close> and the IPv4-mapped \<open>V6 0 (0xffff00000000 OR v)\<close>
  are different addresses.
\<close>

datatype Addr =
    Zero
  | V4 "32 word"
  | V6 "64 word" "64 word" string

fun IsValid :: "Addr \<Rightarrow> bool" where
  "IsValid Zero = False"
| "IsValid (V4 v) = True"
| "IsValid (V6 hi lo z) = True"

fun Is4 :: "Addr \<Rightarrow> bool" where
  "Is4 (V4 v) = True"
| "Is4 a = False"

fun Is4In6 :: "Addr \<Rightarrow> bool" where
  "Is4In6 (V6 hi lo z) = (hi = 0 \<and> drop_bit 32 lo = 0xffff)"
| "Is4In6 a = False"

definition bytes32 :: "32 word \<Rightarrow> byte list" where
  "bytes32 v = [ucast (drop_bit 24 v), ucast (drop_bit 16 v), ucast (drop_bit 8 v), ucast v]"

definition bytes64 :: "64 word \<Rightarrow> byte list" where
  "bytes64 w =
     [ucast (drop_bit 56 w), ucast (drop_bit 48 w), ucast (drop_bit 40 w), ucast (drop_bit 32 w),
      ucast (drop_bit 24 w), ucast (drop_bit 16 w), ucast (drop_bit 8 w), ucast w]"

text \<open>\<open>AsSlice\<close>: \<open>nil\<close> for the zero value, 4 bytes for IPv4, 16 bytes for IPv6 (big-endian).\<close>

fun AsSlice :: "Addr \<Rightarrow> byte list" where
  "AsSlice Zero = []"
| "AsSlice (V4 v) = bytes32 v"
| "AsSlice (V6 hi lo z) = bytes64 hi @ bytes64 lo"

text \<open>
  \<open>As4\<close>: the 4-byte form of an IPv4 or IPv4-mapped IPv6 address (the array \<open>[4]byte\<close> is
  the 32-bit value it spells, big-endian); a panic (\<open>Inl\<close>) on anything else.
\<close>

fun As4 :: "Addr \<Rightarrow> string + 32 word" where
  "As4 (V4 v) = Inr v"
| "As4 (V6 hi lo z) =
     (if Is4In6 (V6 hi lo z) then Inr (ucast lo) else Inl ''As4 called on IPv6 address'')"
| "As4 Zero = Inl ''As4 called on IP zero value''"

text \<open>
  The comparison \<open>a.As4() == b.As4()\<close>: the left operand is evaluated first, so its panic
  wins.
\<close>

definition As4_eq :: "Addr \<Rightarrow> Addr \<Rightarrow> string + bool" where
  "As4_eq a b =
     (case As4 a of
        Inl p \<Rightarrow> Inl p
      | Inr x \<Rightarrow> (case As4 b of Inl p \<Rightarrow> Inl p | Inr y \<Rightarrow> Inr (x = y)))"

subsection \<open>\<open>Addr.String\<close>\<close>

definition digits :: string where
  "digits = ''0123456789abcdef''"

definition appendDecimal :: "byte \<Rightarrow> string" where
  "appendDecimal x =
     (let n = unat x in
      (if n \<ge> 100 then [digits ! (n div 100)] else []) @
      (if n \<ge> 10 then [digits ! (n div 10 mod 10)] else []) @
      [digits ! (n mod 10)])"

definition appendHex :: "16 word \<Rightarrow> string" where
  "appendHex x =
     (let n = unat x in
      (if n \<ge> 0x1000 then [digits ! (n div 0x1000)] else []) @
      (if n \<ge> 0x100 then [digits ! (n div 0x100 mod 16)] else []) @
      (if n \<ge> 0x10 then [digits ! (n div 0x10 mod 16)] else []) @
      [digits ! (n mod 16)])"

definition string4 :: "32 word \<Rightarrow> string" where
  "string4 v =
     (case bytes32 v of
        [a, b, c, d] \<Rightarrow>
          appendDecimal a @ ''.'' @ appendDecimal b @ ''.'' @ appendDecimal c @ ''.'' @ appendDecimal d
      | _ \<Rightarrow> [])"

text \<open>The eight 16-bit fields of an IPv6 address (\<open>v6u16\<close>).\<close>

definition fields16 :: "64 word \<Rightarrow> 16 word list" where
  "fields16 w = [ucast (drop_bit 48 w), ucast (drop_bit 32 w), ucast (drop_bit 16 w), ucast w]"

text \<open>
  The first loop of \<open>appendTo6\<close>: the longest run of two or more zero fields, the
  leftmost of the longest ones, as its start and its length (Go keeps start and end, from
  the sentinel 255, 255).
\<close>

definition zeroRun :: "16 word list \<Rightarrow> nat \<times> nat" where
  "zeroRun fs =
     fold (\<lambda>i (zs, n).
             let l = length (takeWhile (\<lambda>x. x = 0) (drop i fs))
             in if l \<ge> 2 \<and> l > n then (i, l) else (zs, n))
          [0..<8] (255, 0)"

function emit6 :: "nat \<Rightarrow> nat \<Rightarrow> 16 word list \<Rightarrow> nat \<Rightarrow> string" where
  "emit6 zs n fs i =
     (if i \<ge> 8 then []
      else if i = zs then
        ''::'' @ (if zs + n \<ge> 8 then [] else appendHex (fs ! (zs + n)) @ emit6 zs n fs (Suc (zs + n)))
      else (if i > 0 then '':'' else []) @ appendHex (fs ! i) @ emit6 zs n fs (Suc i))"
  by pat_completeness auto
termination
  by (relation "measure (\<lambda>(zs, n, fs, i). 8 - i)") auto

declare emit6.simps [simp del]

definition zoneSuffix :: "string \<Rightarrow> string" where
  "zoneSuffix z = (if z = [] then [] else ''%'' @ z)"

definition string6 :: "64 word \<Rightarrow> 64 word \<Rightarrow> string \<Rightarrow> string" where
  "string6 hi lo z =
     (let fs = fields16 hi @ fields16 lo; (zs, n) = zeroRun fs
      in emit6 zs n fs 0 @ zoneSuffix z)"

fun String :: "Addr \<Rightarrow> string" where
  "String Zero = ''invalid IP''"
| "String (V4 v) = string4 v"
| "String (V6 hi lo z) =
     (if Is4In6 (V6 hi lo z) then ''::ffff:'' @ string4 (ucast lo) @ zoneSuffix z
      else string6 hi lo z)"

section \<open>Package \<open>net\<close>: \<open>IPNet.Contains\<close>\<close>

record IPNet =
  IP :: "byte list"
  Mask :: "byte list"

text \<open>\<open>IP.To4\<close>: the 4-byte form of a 4-byte or IPv4-mapped 16-byte address, else \<open>nil\<close>.\<close>

definition To4 :: "byte list \<Rightarrow> byte list option" where
  "To4 ip =
     (if length ip = 4 then Some ip
      else if length ip = 16 \<and> list_all (\<lambda>b. b = 0) (take 10 ip) \<and> ip ! 10 = 0xff \<and> ip ! 11 = 0xff
      then Some (drop 12 ip)
      else None)"

text \<open>\<open>networkNumberAndMask\<close>; the pair of \<open>nil\<close>s is the pair of empty lists.\<close>

definition networkNumberAndMask :: "IPNet \<Rightarrow> byte list \<times> byte list" where
  "networkNumberAndMask n =
     (case To4 (IP n) of
        Some ip \<Rightarrow>
          (if length (Mask n) = 4 then (ip, Mask n)
           else if length (Mask n) = 16 then (ip, drop 12 (Mask n))
           else ([], []))
      | None \<Rightarrow>
          (if length (IP n) \<noteq> 16 then ([], [])
           else if length (Mask n) = 16 then (IP n, Mask n)
           else ([], [])))"

definition Contains :: "IPNet \<Rightarrow> byte list \<Rightarrow> bool" where
  "Contains n ip0 =
     (let (nn, m) = networkNumberAndMask n;
          ip = (case To4 ip0 of Some x \<Rightarrow> x | None \<Rightarrow> ip0);
          l = length ip
      in if l \<noteq> length nn then False
         else list_all (\<lambda>i. nn ! i AND m ! i = ip ! i AND m ! i) [0..<l])"

section \<open>The pool description\<close>

text \<open>
  \<open>util.PoolInfo\<close>, with the fields \<open>validator.go\<close> reads: the subnet, its network and
  broadcast addresses, and the four optional role addresses. An absent address is the zero
  \<open>Addr\<close> (\<open>IsValid\<close> is false).
\<close>

record PoolInfo =
  IPNet :: IPNet
  NetworkIPAddr :: Addr
  BroadcastIPAddr :: Addr
  StartIPAddr :: Addr
  EndIPAddr :: Addr
  ServerIPAddr :: Addr
  RouterIPAddr :: Addr

section \<open>The address checks of \<open>validator.go\<close>\<close>

definition checkPoolRange :: "PoolInfo \<Rightarrow> result" where
  "checkPoolRange pi =
     (case
        (if IsValid (StartIPAddr pi) then
           (if \<not> Contains (IPNet pi) (AsSlice (StartIPAddr pi)) then
              Err (Error (''start ip '' @ String (StartIPAddr pi) @ '' is not within subnet''))
            else case As4_eq (StartIPAddr pi) (NetworkIPAddr pi) of
              Inl p \<Rightarrow> Panic p
            | Inr True \<Rightarrow>
                Err (Error (''start ip '' @ String (StartIPAddr pi) @ '' is the same as network ip''))
            | Inr False \<Rightarrow>
                (case As4_eq (StartIPAddr pi) (BroadcastIPAddr pi) of
                   Inl p \<Rightarrow> Panic p
                 | Inr True \<Rightarrow>
                     Err (Error (''start ip '' @ String (StartIPAddr pi) @ '' is the same as broadcast ip''))
                 | Inr False \<Rightarrow> Ok))
         else Ok)
      of
        Ok \<Rightarrow>
          (if IsValid (EndIPAddr pi) then
             (if \<not> Contains (IPNet pi) (AsSlice (EndIPAddr pi)) then
                Err (Error (''end ip '' @ String (EndIPAddr pi) @ '' is not within subnet''))
              else case As4_eq (EndIPAddr pi) (NetworkIPAddr pi) of
                Inl p \<Rightarrow> Panic p
              | Inr True \<Rightarrow>
                  Err (Error (''end ip '' @ String (EndIPAddr pi) @ '' is the same as network ip''))
              | Inr False \<Rightarrow>
                  (case As4_eq (EndIPAddr pi) (BroadcastIPAddr pi) of
                     Inl p \<Rightarrow> Panic p
                   | Inr True \<Rightarrow>
                       Err (Error (''end ip '' @ String (EndIPAddr pi) @ '' is the same as broadcast ip''))
                   | Inr False \<Rightarrow> Ok))
           else Ok)
      | r \<Rightarrow> r)"

text \<open>The loop of \<open>checkServerIP\<close> over the allocated addresses, with Go's \<open>==\<close> on \<open>Addr\<close>.\<close>

fun allocatedLoop :: "Addr \<Rightarrow> Addr list \<Rightarrow> result" where
  "allocatedLoop server [] = Ok"
| "allocatedLoop server (ip # ips) =
     (if server = ip then Err (Error (''server ip '' @ String server @ '' is already allocated''))
      else allocatedLoop server ips)"

definition checkServerIP :: "PoolInfo \<Rightarrow> Addr list \<Rightarrow> result" where
  "checkServerIP pi allocatedIPs =
     (if \<not> IsValid (ServerIPAddr pi) then Ok
      else if \<not> Contains (IPNet pi) (AsSlice (ServerIPAddr pi)) then
        Err (Error (''server ip '' @ String (ServerIPAddr pi) @ '' is not within subnet''))
      else case As4_eq (ServerIPAddr pi) (NetworkIPAddr pi) of
        Inl p \<Rightarrow> Panic p
      | Inr True \<Rightarrow>
          Err (Error (''server ip '' @ String (ServerIPAddr pi) @ '' cannot be the same as network ip''))
      | Inr False \<Rightarrow>
          (case As4_eq (ServerIPAddr pi) (BroadcastIPAddr pi) of
             Inl p \<Rightarrow> Panic p
           | Inr True \<Rightarrow>
               Err (Error (''server ip '' @ String (ServerIPAddr pi) @ '' cannot be the same as broadcast ip''))
           | Inr False \<Rightarrow>
               (case (if IsValid (RouterIPAddr pi) then As4_eq (ServerIPAddr pi) (RouterIPAddr pi)
                      else Inr False) of
                  Inl p \<Rightarrow> Panic p
                | Inr True \<Rightarrow>
                    Err (Error (''server ip '' @ String (ServerIPAddr pi) @ '' cannot be the same as router ip''))
                | Inr False \<Rightarrow> allocatedLoop (ServerIPAddr pi) allocatedIPs)))"

definition checkRouter :: "PoolInfo \<Rightarrow> result" where
  "checkRouter pi =
     (if \<not> IsValid (RouterIPAddr pi) then Ok
      else if \<not> Contains (IPNet pi) (AsSlice (RouterIPAddr pi)) then
        Err (Error (''router ip '' @ String (RouterIPAddr pi) @ '' is not within subnet''))
      else case As4_eq (RouterIPAddr pi) (NetworkIPAddr pi) of
        Inl p \<Rightarrow> Panic p
      | Inr True \<Rightarrow>
          Err (Error (''router ip '' @ String (RouterIPAddr pi) @ '' is the same as network ip''))
      | Inr False \<Rightarrow>
          (case As4_eq (RouterIPAddr pi) (BroadcastIPAddr pi) of
             Inl p \<Rightarrow> Panic p
           | Inr True \<Rightarrow>
               Err (Error (''router ip '' @ String (BroadcastIPAddr pi) @ '' is the same as broadcast ip''))
           | Inr False \<Rightarrow> Ok))"

section \<open>The objects and the collaborators of the validator\<close>

text \<open>
  Of an \<open>IPPool\<close> object the validator reads the kind, the namespace, the name, the
  deletion timestamp (a pointer, \<open>nil\<close> when not set), the network name of the spec and the
  IPv4 status (a pointer) with its map of allocated addresses. The rest of the spec is read
  by the loader only and stays abstract (\<open>'c\<close>). Namespace and name are the promoted fields
  of the embedded \<open>ObjectMeta\<close>, the kind is the one of the embedded \<open>TypeMeta\<close>.
\<close>

record TypeMeta =
  Kind :: string

record ObjectMeta =
  Namespace :: string
  Name :: string
  DeletionTimestamp :: "nat option"

record 'c IPPoolSpec =
  NetworkName :: string
  IPv4Config :: 'c

record IPv4Status =
  Allocated :: "string \<rightharpoonup> string"

record IPPoolStatus =
  IPv4 :: "IPv4Status option"

record 'c IPPool =
  TypeMeta :: TypeMeta
  ObjectMeta :: ObjectMeta
  Spec :: "'c IPPoolSpec"
  Status :: IPPoolStatus

text \<open>Of a \<open>VirtualMachineNetworkConfig\<close> the validator reads the namespace and the name.\<close>

type_synonym VirtualMachineNetworkConfig = ObjectMeta

text \<open>
  The caches are read-only lookups. \<open>NetworkAttachmentDefinitionCache\<close> is its method
  \<open>Get\<close>, of which the validator keeps the error only (\<open>None\<close> is \<open>nil\<close>); the
  \<open>VirtualMachineNetworkConfigCache\<close> is handed to \<open>WhoUseIPPool\<close> as it is (\<open>'vc\<close>).
\<close>

type_synonym NetworkAttachmentDefinitionCache = "string \<Rightarrow> string \<Rightarrow> error option"

record 'vc Validator =
  nadCache :: NetworkAttachmentDefinitionCache
  vmnetcfgCache :: 'vc

text \<open>
  The functions of package \<open>util\<close> and the format constants of package \<open>webhook\<close> that
  \<open>validator.go\<close> uses are not part of it; they are parameters of the model:
  the loader \<open>LoadPool\<close> (an error or the pool description), \<open>LoadAllocated\<close> (the
  allocated addresses of the status map), \<open>VmnetcfgGetter.WhoUseIPPool\<close> (an error or the
  dependents of a pool), and the formats \<open>CreateErr\<close> and \<open>DeleteErr\<close>.
\<close>

record ('c, 'vc) util =
  LoadPool :: "'c IPPool \<Rightarrow> error + PoolInfo"
  LoadAllocated :: "(string \<rightharpoonup> string) \<Rightarrow> Addr list"
  WhoUseIPPool :: "'vc \<Rightarrow> 'c IPPool \<Rightarrow> error + VirtualMachineNetworkConfig list"

record webhook =
  CreateErr :: string
  DeleteErr :: string

subsection \<open>\<open>kv.RSplit\<close> and \<open>strings.Join\<close>\<close>

text \<open>
  Modelled from the spec: the split that \<open>kv.RSplit\<close> makes (see below), at the last
  occurrence of the separator, into the text before it and the text after it; \<open>None\<close>
  when the separator does not occur.
\<close>

fun splitLast :: "string \<Rightarrow> string \<Rightarrow> (string \<times> string) option" where
  "splitLast [] sep = None"
| "splitLast (c # cs) sep =
     (case splitLast cs sep of
        Some (a, b) \<Rightarrow> Some (c # a, b)
      | None \<Rightarrow>
          (if take (length sep) (c # cs) = sep then Some ([], drop (length sep) (c # cs))
           else None))"

text \<open>
  Modelled from the spec: \<open>kv.RSplit\<close>, a helper of the library \<open>rancher/wrangler\<close> whose
  source is not part of this repository. It splits the identifier into a namespace and a name at the
  last separator; with no separator ("no namespace qualifier") the namespace is empty and
  the name is the whole identifier.
\<close>

definition RSplit :: "string \<Rightarrow> string \<Rightarrow> string \<times> string" where
  "RSplit s sep = (case splitLast s sep of None \<Rightarrow> ([], s) | Some (a, b) \<Rightarrow> (a, b))"

fun Join :: "string list \<Rightarrow> string \<Rightarrow> string" where
  "Join [] sep = []"
| "Join [x] sep = x"
| "Join (x # y # ys) sep = x @ sep @ Join (y # ys) sep"

section \<open>The lookups of \<open>validator.go\<close>\<close>

definition checkNAD :: "'vc Validator \<Rightarrow> string \<Rightarrow> error option" where
  "checkNAD v namespacedName =
     (let (nadNamespace, nadName) = RSplit namespacedName ''/'';
          nadNamespace = (if nadNamespace = [] then ''default'' else nadNamespace)
      in nadCache v nadNamespace nadName)"

definition checkVmNetCfgs :: "('c, 'vc) util \<Rightarrow> 'vc Validator \<Rightarrow> 'c IPPool \<Rightarrow> error option" where
  "checkVmNetCfgs util v ipPool =
     (case WhoUseIPPool util (vmnetcfgCache v) ipPool of
        Inl err \<Rightarrow> Some err
      | Inr vmNetCfgs \<Rightarrow>
          (if length vmNetCfgs > 0 then
             Some (Error (''it'' @ [CHR 0x27] @ ''s still used by VirtualMachineNetworkConfig(s) '' @
                          Join (map (\<lambda>vmNetCfg. Namespace vmNetCfg @ ''/'' @ Name vmNetCfg) vmNetCfgs) '', '' @
                          '', which must be removed at first''))
           else None))"

section \<open>The entry points\<close>

text \<open>
  The admission pipeline hands \<open>Create\<close>, \<open>Update\<close> and \<open>Delete\<close> an object of the
  registered type, so the type assertion on it is the identity here. The log lines are left
  out. \<open>fmt.Errorf\<close> under a format of package \<open>webhook\<close> is the constructor
  \<open>Wrapped\<close>; \<open>Update\<close> wraps under \<open>CreateErr\<close> as well.
\<close>

definition Create :: "('c, 'vc) util \<Rightarrow> webhook \<Rightarrow> 'vc Validator \<Rightarrow> 'c IPPool \<Rightarrow> result" where
  "Create util webhook v ipPool =
     (case LoadPool util ipPool of
        Inl err \<Rightarrow>
          Err (Wrapped (CreateErr webhook)
                 [''IPPool'', Namespace (ObjectMeta ipPool), Name (ObjectMeta ipPool)] err)
      | Inr poolInfo \<Rightarrow>
     (case checkNAD v (NetworkName (Spec ipPool)) of
        Some err \<Rightarrow>
          Err (Wrapped (CreateErr webhook)
                 [''IPPool'', Namespace (ObjectMeta ipPool), Name (ObjectMeta ipPool)] err)
      | None \<Rightarrow>
     (case checkPoolRange poolInfo of
        Err err \<Rightarrow>
          Err (Wrapped (CreateErr webhook)
                 [''IPPool'', Namespace (ObjectMeta ipPool), Name (ObjectMeta ipPool)] err)
      | Panic p \<Rightarrow> Panic p
      | Ok \<Rightarrow>
     (case checkServerIP poolInfo [] of
        Err err \<Rightarrow>
          Err (Wrapped (CreateErr webhook)
                 [''IPPool'', Namespace (ObjectMeta ipPool), Name (ObjectMeta ipPool)] err)
      | Panic p \<Rightarrow> Panic p
      | Ok \<Rightarrow>
     (case checkRouter poolInfo of
        Err err \<Rightarrow>
          Err (Wrapped (CreateErr webhook)
                 [''IPPool'', Namespace (ObjectMeta ipPool), Name (ObjectMeta ipPool)] err)
      | Panic p \<Rightarrow> Panic p
      | Ok \<Rightarrow> Ok)))))"

definition Update :: "('c, 'vc) util \<Rightarrow> webhook \<Rightarrow> 'vc Validator \<Rightarrow> 'c IPPool \<Rightarrow> result" where
  "Update util webhook v ipPool =
     (if DeletionTimestamp (ObjectMeta ipPool) \<noteq> None then Ok
      else
     (case LoadPool util ipPool of
        Inl err \<Rightarrow>
          Err (Wrapped (CreateErr webhook)
                 [''IPPool'', Namespace (ObjectMeta ipPool), Name (ObjectMeta ipPool)] err)
      | Inr poolInfo \<Rightarrow>
     (let allocatedIPAddrList =
            (case IPv4 (Status ipPool) of
               None \<Rightarrow> []
             | Some st \<Rightarrow> LoadAllocated util (Allocated st))
      in
     (case checkNAD v (NetworkName (Spec ipPool)) of
        Some err \<Rightarrow>
          Err (Wrapped (CreateErr webhook)
                 [''IPPool'', Namespace (ObjectMeta ipPool), Name (ObjectMeta ipPool)] err)
      | None \<Rightarrow>
     (case checkPoolRange poolInfo of
        Err err \<Rightarrow>
          Err (Wrapped (CreateErr webhook)
                 [''IPPool'', Namespace (ObjectMeta ipPool), Name (ObjectMeta ipPool)] err)
      | Panic p \<Rightarrow> Panic p
      | Ok \<Rightarrow>
     (case checkServerIP poolInfo allocatedIPAddrList of
        Err err \<Rightarrow>
          Err (Wrapped (CreateErr webhook)
                 [''IPPool'', Namespace (ObjectMeta ipPool), Name (ObjectMeta ipPool)] err)
      | Panic p \<Rightarrow> Panic p
      | Ok \<Rightarrow>
     (case checkRouter poolInfo of
        Err err \<Rightarrow>
          Err (Wrapped (CreateErr webhook)
                 [''IPPool'', Namespace (ObjectMeta ipPool), Name (ObjectMeta ipPool)] err)
      | Panic p \<Rightarrow> Panic p
      | Ok \<Rightarrow> Ok)))))))"

definition Delete :: "('c, 'vc) util \<Rightarrow> webhook \<Rightarrow> 'vc Validator \<Rightarrow> 'c IPPool \<Rightarrow> result" where
  "Delete util webhook v ipPool =
     (case checkVmNetCfgs util v ipPool of
        Some err \<Rightarrow>
          Err (Wrapped (DeleteErr webhook)
                 [Kind (TypeMeta ipPool), Namespace (ObjectMeta ipPool), Name (ObjectMeta ipPool)] err)
      | None \<Rightarrow> Ok)"

section \<open>The rules as the specification words them\<close>















section \<open>Example values\<close>

text \<open>
  The subnet \<open>192.168.0.0/24\<close> with network address \<open>192.168.0.0\<close>, broadcast address
  \<open>192.168.0.255\<close>, the range \<open>192.168.0.10\<close> to \<open>192.168.0.200\<close>, the server
  \<open>192.168.0.2\<close> and the router \<open>192.168.0.1\<close>.
\<close>

definition exampleNet :: IPNet where
  "exampleNet = \<lparr>IP = [192, 168, 0, 0], Mask = [255, 255, 255, 0]\<rparr>"

definition examplePool :: PoolInfo where
  "examplePool =
     \<lparr>IPNet = exampleNet,
      NetworkIPAddr = V4 0xC0A80000,
      BroadcastIPAddr = V4 0xC0A800FF,
      StartIPAddr = V4 0xC0A8000A,
      EndIPAddr = V4 0xC0A800C8,
      ServerIPAddr = V4 0xC0A80002,
      RouterIPAddr = V4 0xC0A80001\<rparr>"

definition exampleStatus :: IPv4Status where
  "exampleStatus = \<lparr>Allocated = [''192.168.0.2'' \<mapsto> ''52:54:00:00:00:01'']\<rparr>"

definition exampleIPPool :: "unit IPPool" where
  "exampleIPPool =
     \<lparr>TypeMeta = \<lparr>Kind = ''IPPool''\<rparr>,
      ObjectMeta = \<lparr>Namespace = ''default'', Name = ''pool1'', DeletionTimestamp = None\<rparr>,
      Spec = \<lparr>NetworkName = ''default/net1'', IPv4Config = ()\<rparr>,
      Status = \<lparr>IPv4 = Some exampleStatus\<rparr>\<rparr>"

text \<open>The same object, marked for deletion.\<close>

definition deletingIPPool :: "unit IPPool" where
  "deletingIPPool =
     exampleIPPool\<lparr>ObjectMeta :=
       \<lparr>Namespace = ''default'', Name = ''pool1'', DeletionTimestamp = Some 1\<rparr>\<rparr>"

text \<open>
  A loader that yields the example pool, an allocation reader that finds \<open>192.168.0.2\<close>
  in the status map, and a pool without dependents.
\<close>

definition exampleUtil :: "(unit, unit) util" where
  "exampleUtil =
     \<lparr>LoadPool = (\<lambda>p. Inr examplePool),
      LoadAllocated = (\<lambda>m. if m ''192.168.0.2'' = None then [] else [V4 0xC0A80002]),
      WhoUseIPPool = (\<lambda>c p. Inr [])\<rparr>"

text \<open>A loader that fails, and a dependency lookup that fails.\<close>

definition failingUtil :: "(unit, unit) util" where
  "failingUtil =
     \<lparr>LoadPool = (\<lambda>p. Inl (Error ''invalid CIDR address'')),
      LoadAllocated = (\<lambda>m. []),
      WhoUseIPPool = (\<lambda>c p. Inl (Error ''index not found''))\<rparr>"

text \<open>A pool with two dependents.\<close>

definition exampleDependents :: "VirtualMachineNetworkConfig list" where
  "exampleDependents =
     [\<lparr>Namespace = ''default'', Name = ''vm1'', DeletionTimestamp = None\<rparr>,
      \<lparr>Namespace = ''prod'', Name = ''vm2'', DeletionTimestamp = None\<rparr>]"

definition usedUtil :: "(unit, unit) util" where
  "usedUtil = exampleUtil\<lparr>WhoUseIPPool := (\<lambda>c p. Inr exampleDependents)\<rparr>"

definition exampleWebhook :: webhook where
  "exampleWebhook =
     \<lparr>CreateErr = ''could not create %s %s/%s because %w'',
      DeleteErr = ''could not delete %s %s/%s because %w''\<rparr>"

text \<open>A registry that knows the networks \<open>default/net1\<close> and \<open>prod/net2\<close> only.\<close>

definition exampleValidator :: "unit Validator" where
  "exampleValidator =
     \<lparr>nadCache =
        (\<lambda>ns n. if (ns = ''default'' \<and> n = ''net1'') \<or> (ns = ''prod'' \<and> n = ''net2'') then None
                 else Some (Error ''not found'')),
      vmnetcfgCache = ()\<rparr>"

section \<open>Auxiliary facts\<close>



lemma Is4_neq_Is4In6: "Is4 a \<Longrightarrow> Is4In6 b \<Longrightarrow> a \<noteq> b"
proof
  assume "Is4 a" and "Is4In6 b" and "a = b"
  then have "Is4 b" by simp
  then obtain v where "b = V4 v" by (cases b) simp_all
  with \<open>Is4In6 b\<close> show False by simp
qed

text \<open>The loop reports a violation exactly when the server address is in the list.\<close>

lemma allocatedLoop_mem:
  "allocatedLoop s al =
     (if s \<in> set al then Err (Error (''server ip '' @ String s @ '' is already allocated''))
      else Ok)"
  by (induction al) auto

text \<open>The allocated addresses matter only after the first four rules have passed.\<close>

lemma checkServerIP_via_nil:
  "checkServerIP pi al =
     (case checkServerIP pi [] of
        Ok \<Rightarrow> (if IsValid (ServerIPAddr pi) then allocatedLoop (ServerIPAddr pi) al else Ok)
      | r \<Rightarrow> r)"
  by (simp add: checkServerIP_def split: sum.splits bool.splits)

lemma checkServerIP_nil_Ok_allocated:
  assumes "checkServerIP pi [] = Ok" "IsValid (ServerIPAddr pi)" "ServerIPAddr pi \<in> set al"
  shows "checkServerIP pi al =
           Err (Error (''server ip '' @ String (ServerIPAddr pi) @ '' is already allocated''))"
  using assms by (subst checkServerIP_via_nil) (simp add: allocatedLoop_mem)

lemma checkServerIP_not_mem:
  "ServerIPAddr pi \<notin> set al \<Longrightarrow> checkServerIP pi al = checkServerIP pi []"
  by (subst checkServerIP_via_nil) (simp add: allocatedLoop_mem split: result.splits)

lemma checkServerIP_nil_not_allocated:
  "checkServerIP pi [] \<noteq>
     Err (Error (''server ip '' @ String (ServerIPAddr pi) @ '' is already allocated''))"
  by (simp add: checkServerIP_def split: sum.splits bool.splits)

lemma checkRouter_ServerIPAddr: "checkRouter (pi\<lparr>ServerIPAddr := s\<rparr>) = checkRouter pi"
  by (simp add: checkRouter_def split: sum.splits bool.splits)


text \<open>Every joined element is a part of the joined text.\<close>

lemma Join_contains:
  "d \<in> set ds \<Longrightarrow> \<exists>pre post. Join (map f ds) sep = pre @ f d @ post"
proof (induction ds rule: induct_list012)
  case 1
  then show ?case by simp
next
  case (2 x)
  then show ?case by (auto intro: exI [of _ "[]"])
next
  case (3 x y zs)
  show ?case
  proof (cases "d = x")
    case True
    then show ?thesis by (auto intro: exI [of _ "[]"])
  next
    case False
    with 3 obtain pre post where "Join (map f (y # zs)) sep = pre @ f d @ post" by auto
    then have "Join (map f (x # y # zs)) sep = (f x @ sep @ pre) @ f d @ post" by simp
    then show ?thesis by blast
  qed
qed



section \<open>The range check\<close>





section \<open>The server address check\<close>



text \<open>
  Claim C10. The already-allocated rule compares with the equality of \<open>Addr\<close>, which
  tells an IPv4 address from its IPv4-mapped IPv6 form, while the router rule (as the
  network and broadcast rules) compares the 4-byte forms. For an IPv4 server address and
  an IPv4-mapped address of the same 4 bytes: supplied as the only allocated address it
  changes nothing, and no already-allocated violation is reported; taken as the router
  address it is a collision, once the first three rules have passed.
\<close>

theorem checkServerIP_mapped_allocated:
  assumes "Is4 (ServerIPAddr pi)" and "Is4In6 ip" and "As4 ip = As4 (ServerIPAddr pi)"
  shows "checkServerIP pi [ip] = checkServerIP pi [] \<and>
         checkServerIP pi [ip] \<noteq>
           Err (Error (''server ip '' @ String (ServerIPAddr pi) @ '' is already allocated'')) \<and>
         (Contains (IPNet pi) (AsSlice (ServerIPAddr pi)) \<and>
          As4_eq (ServerIPAddr pi) (NetworkIPAddr pi) = Inr False \<and>
          As4_eq (ServerIPAddr pi) (BroadcastIPAddr pi) = Inr False \<longrightarrow>
          checkServerIP (pi\<lparr>RouterIPAddr := ip\<rparr>) [] =
            Err (Error (''server ip '' @ String (ServerIPAddr pi) @ '' cannot be the same as router ip'')))"
proof (intro conjI impI)
  have "ServerIPAddr pi \<noteq> ip"
    using assms(1,2) by (rule Is4_neq_Is4In6)
  then show same: "checkServerIP pi [ip] = checkServerIP pi []"
    by (intro checkServerIP_not_mem) simp
  with checkServerIP_nil_not_allocated [of pi]
  show "checkServerIP pi [ip] \<noteq>
          Err (Error (''server ip '' @ String (ServerIPAddr pi) @ '' is already allocated''))"
    by simp
next
  assume pre: "Contains (IPNet pi) (AsSlice (ServerIPAddr pi)) \<and>
          As4_eq (ServerIPAddr pi) (NetworkIPAddr pi) = Inr False \<and>
          As4_eq (ServerIPAddr pi) (BroadcastIPAddr pi) = Inr False"
  obtain v where v: "ServerIPAddr pi = V4 v"
    using assms(1) by (cases "ServerIPAddr pi") simp_all
  obtain hi lo z where ip: "ip = V6 hi lo z"
    using assms(2) by (cases ip) simp_all
  have "As4_eq (ServerIPAddr pi) ip = Inr True"
    using assms(2,3) by (simp add: As4_eq_def v)
  moreover have "IsValid ip" "IsValid (ServerIPAddr pi)"
    by (simp_all add: ip v)
  ultimately show "checkServerIP (pi\<lparr>RouterIPAddr := ip\<rparr>) [] =
      Err (Error (''server ip '' @ String (ServerIPAddr pi) @ '' cannot be the same as router ip''))"
    using pre by (simp add: checkServerIP_def)
qed

theorem checkServerIP_mapped_allocated_witness:
  "Is4 (ServerIPAddr examplePool) \<and> Is4In6 (V6 0 0xFFFFC0A80002 []) \<and>
   As4 (V6 0 0xFFFFC0A80002 []) = As4 (ServerIPAddr examplePool) \<and>
   checkServerIP examplePool [V6 0 0xFFFFC0A80002 []] = Ok \<and>
   checkServerIP examplePool [V4 0xC0A80002] =
     Err (Error ''server ip 192.168.0.2 is already allocated'') \<and>
   checkServerIP (examplePool\<lparr>RouterIPAddr := V6 0 0xFFFFC0A80002 []\<rparr>) [] =
     Err (Error ''server ip 192.168.0.2 cannot be the same as router ip'')"
proof -
  let ?ip = "V6 0 0xFFFFC0A80002 []"
  have h1: "Is4 (ServerIPAddr examplePool)" by code_simp
  have h2: "Is4In6 ?ip" by code_simp
  have h3: "As4 ?ip = As4 (ServerIPAddr examplePool)" by code_simp
  have n: "checkServerIP examplePool [] = Ok" by code_simp
  have a: "checkServerIP examplePool [V4 0xC0A80002] =
             Err (Error ''server ip 192.168.0.2 is already allocated'')" by code_simp
  have pre: "Contains (IPNet examplePool) (AsSlice (ServerIPAddr examplePool)) \<and>
          As4_eq (ServerIPAddr examplePool) (NetworkIPAddr examplePool) = Inr False \<and>
          As4_eq (ServerIPAddr examplePool) (BroadcastIPAddr examplePool) = Inr False"
    by code_simp
  have s: "''server ip '' @ String (ServerIPAddr examplePool) @ '' cannot be the same as router ip'' =
           ''server ip 192.168.0.2 cannot be the same as router ip''" by code_simp
  from checkServerIP_mapped_allocated [OF h1 h2 h3] pre
  have "checkServerIP examplePool [?ip] = checkServerIP examplePool []"
    and "checkServerIP (examplePool\<lparr>RouterIPAddr := ?ip\<rparr>) [] =
      Err (Error (''server ip '' @ String (ServerIPAddr examplePool) @ '' cannot be the same as router ip''))"
    by blast+
  with h1 h2 h3 n a s show ?thesis by (simp only: simp_thms)
qed

text \<open>
  Claim C5. When the server address and the router address are both present and equal, and
  the server address is within the subnet and is neither the network nor the broadcast
  address, \<open>checkServerIP\<close> rejects with the same-as-router wording. \<open>checkRouter\<close> does
  not read the server address at all: its result is the same for every server address.
\<close>

theorem server_router_asymmetry:
  assumes "IsValid (ServerIPAddr pi)" and "IsValid (RouterIPAddr pi)"
    and "Contains (IPNet pi) (AsSlice (ServerIPAddr pi))"
    and "As4_eq (ServerIPAddr pi) (NetworkIPAddr pi) = Inr False"
    and "As4_eq (ServerIPAddr pi) (BroadcastIPAddr pi) = Inr False"
    and "As4_eq (ServerIPAddr pi) (RouterIPAddr pi) = Inr True"
  shows "checkServerIP pi allocatedIPs =
           Err (Error (''server ip '' @ String (ServerIPAddr pi) @ '' cannot be the same as router ip''))
         \<and> checkRouter (pi\<lparr>ServerIPAddr := s\<rparr>) = checkRouter pi"
proof
  show "checkServerIP pi allocatedIPs =
           Err (Error (''server ip '' @ String (ServerIPAddr pi) @ '' cannot be the same as router ip''))"
    using assms by (simp add: checkServerIP_def)
  show "checkRouter (pi\<lparr>ServerIPAddr := s\<rparr>) = checkRouter pi"
    by (rule checkRouter_ServerIPAddr)
qed

theorem server_router_asymmetry_witness:
  "ServerIPAddr (examplePool\<lparr>ServerIPAddr := V4 0xC0A80001\<rparr>) =
     RouterIPAddr (examplePool\<lparr>ServerIPAddr := V4 0xC0A80001\<rparr>) \<and>
   checkServerIP (examplePool\<lparr>ServerIPAddr := V4 0xC0A80001\<rparr>) [] =
     Err (Error ''server ip 192.168.0.1 cannot be the same as router ip'') \<and>
   checkRouter (examplePool\<lparr>ServerIPAddr := V4 0xC0A80001\<rparr>) = Ok"
proof -
  let ?P = "examplePool\<lparr>ServerIPAddr := V4 0xC0A80001\<rparr>"
  have h1: "IsValid (ServerIPAddr ?P)" by code_simp
  have h2: "IsValid (RouterIPAddr ?P)" by code_simp
  have h3: "Contains (IPNet ?P) (AsSlice (ServerIPAddr ?P))" by code_simp
  have h4: "As4_eq (ServerIPAddr ?P) (NetworkIPAddr ?P) = Inr False" by code_simp
  have h5: "As4_eq (ServerIPAddr ?P) (BroadcastIPAddr ?P) = Inr False" by code_simp
  have h6: "As4_eq (ServerIPAddr ?P) (RouterIPAddr ?P) = Inr True" by code_simp
  have e: "ServerIPAddr ?P = RouterIPAddr ?P" by code_simp
  have s: "''server ip '' @ String (ServerIPAddr ?P) @ '' cannot be the same as router ip'' =
           ''server ip 192.168.0.1 cannot be the same as router ip''" by code_simp
  have r: "checkRouter examplePool = Ok" by code_simp
  from server_router_asymmetry [OF h1 h2 h3 h4 h5 h6, of "[]" "ServerIPAddr examplePool"]
  have "checkServerIP ?P [] =
      Err (Error (''server ip '' @ String (ServerIPAddr ?P) @ '' cannot be the same as router ip''))"
    and "checkRouter (?P\<lparr>ServerIPAddr := ServerIPAddr examplePool\<rparr>) = checkRouter ?P"
    by blast+
  moreover have "?P\<lparr>ServerIPAddr := ServerIPAddr examplePool\<rparr> = examplePool"
    by simp
  ultimately show ?thesis using e s r by (simp only: simp_thms)
qed

section \<open>The router address check\<close>

text \<open>
  Claim C6. When the router address is present, within the subnet, not the network address
  and equal to the broadcast address, \<open>checkRouter\<close> rejects, and the message is built
  from the broadcast address of the pool description, not from the router address:
  "router ip <broadcast> is the same as broadcast ip".
\<close>

theorem checkRouter_broadcast_message:
  assumes "IsValid (RouterIPAddr pi)"
    and "Contains (IPNet pi) (AsSlice (RouterIPAddr pi))"
    and "As4_eq (RouterIPAddr pi) (NetworkIPAddr pi) = Inr False"
    and "As4_eq (RouterIPAddr pi) (BroadcastIPAddr pi) = Inr True"
  shows "checkRouter pi =
           Err (Error (''router ip '' @ String (BroadcastIPAddr pi) @ '' is the same as broadcast ip''))"
  using assms by (simp add: checkRouter_def)

theorem checkRouter_broadcast_message_witness:
  "String (RouterIPAddr (examplePool\<lparr>RouterIPAddr := V6 0 0xFFFFC0A800FF []\<rparr>)) =
     ''::ffff:192.168.0.255'' \<and>
   String (BroadcastIPAddr (examplePool\<lparr>RouterIPAddr := V6 0 0xFFFFC0A800FF []\<rparr>)) =
     ''192.168.0.255'' \<and>
   checkRouter (examplePool\<lparr>RouterIPAddr := V6 0 0xFFFFC0A800FF []\<rparr>) =
     Err (Error ''router ip 192.168.0.255 is the same as broadcast ip'')"
proof -
  let ?P = "examplePool\<lparr>RouterIPAddr := V6 0 0xFFFFC0A800FF []\<rparr>"
  have h1: "IsValid (RouterIPAddr ?P)" by code_simp
  have h2: "Contains (IPNet ?P) (AsSlice (RouterIPAddr ?P))" by code_simp
  have h3: "As4_eq (RouterIPAddr ?P) (NetworkIPAddr ?P) = Inr False" by code_simp
  have h4: "As4_eq (RouterIPAddr ?P) (BroadcastIPAddr ?P) = Inr True" by code_simp
  have r: "String (RouterIPAddr ?P) = ''::ffff:192.168.0.255''" by code_simp
  have b: "String (BroadcastIPAddr ?P) = ''192.168.0.255''" by code_simp
  have s: "''router ip '' @ ''192.168.0.255'' @ '' is the same as broadcast ip'' =
           ''router ip 192.168.0.255 is the same as broadcast ip''" by simp
  from checkRouter_broadcast_message [OF h1 h2 h3 h4] r b s
  show ?thesis by (simp only: simp_thms)
qed

section \<open>The entry points \<open>Create\<close>, \<open>Update\<close> and \<open>Delete\<close>\<close>

text \<open>
  Claim C3. Let the object not be marked for deletion, the loader yield a pool description
  with a present server address \<open>X\<close>, and \<open>X\<close> be among the allocated addresses read
  from the status. If nothing else is wrong with the description (the network exists, and
  the range check, the server check without allocated addresses and the router check all
  pass), then \<open>Update\<close> rejects with the already-allocated error for \<open>X\<close>, while
  \<open>Create\<close>, which hands no allocated address to the server check, accepts the same
  object.
\<close>

theorem Update_rejects_allocated_server:
  assumes "DeletionTimestamp (ObjectMeta ipPool) = None"
    and "LoadPool util ipPool = Inr pi"
    and "IPv4 (Status ipPool) = Some st"
    and "X \<in> set (LoadAllocated util (Allocated st))"
    and "ServerIPAddr pi = X" and "IsValid X"
    and "checkNAD v (NetworkName (Spec ipPool)) = None"
    and "checkPoolRange pi = Ok"
    and "checkServerIP pi [] = Ok"
    and "checkRouter pi = Ok"
  shows "Update util webhook v ipPool =
           Err (Wrapped (CreateErr webhook)
                  [''IPPool'', Namespace (ObjectMeta ipPool), Name (ObjectMeta ipPool)]
                  (Error (''server ip '' @ String X @ '' is already allocated'')))
         \<and> Create util webhook v ipPool = Ok"
proof -
  have "checkServerIP pi (LoadAllocated util (Allocated st)) =
          Err (Error (''server ip '' @ String X @ '' is already allocated''))"
    using checkServerIP_nil_Ok_allocated [of pi "LoadAllocated util (Allocated st)"] assms by simp
  then show ?thesis
    using assms by (simp add: Update_def Create_def)
qed

theorem Update_rejects_allocated_server_witness:
  "V4 0xC0A80002 \<in> set (LoadAllocated exampleUtil (Allocated exampleStatus)) \<and>
   ServerIPAddr examplePool = V4 0xC0A80002 \<and>
   Update exampleUtil exampleWebhook exampleValidator exampleIPPool =
     Err (Wrapped ''could not create %s %s/%s because %w'' [''IPPool'', ''default'', ''pool1'']
            (Error ''server ip 192.168.0.2 is already allocated'')) \<and>
   Create exampleUtil exampleWebhook exampleValidator exampleIPPool = Ok"
proof -
  have h1: "DeletionTimestamp (ObjectMeta exampleIPPool) = None" by code_simp
  have h2: "LoadPool exampleUtil exampleIPPool = Inr examplePool"
    by (simp add: exampleUtil_def)
  have h3: "IPv4 (Status exampleIPPool) = Some exampleStatus"
    by (simp add: exampleIPPool_def)
  have h4: "V4 0xC0A80002 \<in> set (LoadAllocated exampleUtil (Allocated exampleStatus))"
    by (simp add: exampleUtil_def exampleStatus_def)
  have h5: "ServerIPAddr examplePool = V4 0xC0A80002" by code_simp
  have h6: "IsValid (V4 0xC0A80002)" by simp
  have h7: "checkNAD exampleValidator (NetworkName (Spec exampleIPPool)) = None" by code_simp
  have h8: "checkPoolRange examplePool = Ok" by code_simp
  have h9: "checkServerIP examplePool [] = Ok" by code_simp
  have h10: "checkRouter examplePool = Ok" by code_simp
  have c: "CreateErr exampleWebhook = ''could not create %s %s/%s because %w''"
    by (simp add: exampleWebhook_def)
  have n: "Namespace (ObjectMeta exampleIPPool) = ''default''" "Name (ObjectMeta exampleIPPool) = ''pool1''"
    by (simp_all add: exampleIPPool_def)
  have s: "''server ip '' @ String (V4 0xC0A80002) @ '' is already allocated'' =
           ''server ip 192.168.0.2 is already allocated''" by code_simp
  from Update_rejects_allocated_server [OF h1 h2 h3 h4 h5 h6 h7 h8 h9 h10, of exampleWebhook]
    h4 h5 c n s
  show ?thesis by (simp only: simp_thms)
qed

text \<open>
  Claim C7. For an object whose deletion timestamp is set, \<open>Update\<close> returns \<open>nil\<close>
  whatever the loader, the network registry, the allocation reader and the formats are:
  none of them is consulted, and no violation in the object matters.
\<close>

theorem Update_deletion_short_circuit:
  "DeletionTimestamp (ObjectMeta ipPool) \<noteq> None \<Longrightarrow> Update util webhook v ipPool = Ok"
  by (simp add: Update_def)

theorem Update_deletion_short_circuit_witness:
  "DeletionTimestamp (ObjectMeta deletingIPPool) \<noteq> None \<and>
   Update failingUtil exampleWebhook exampleValidator deletingIPPool = Ok \<and>
   Create failingUtil exampleWebhook exampleValidator deletingIPPool =
     Err (Wrapped ''could not create %s %s/%s because %w'' [''IPPool'', ''default'', ''pool1'']
            (Error ''invalid CIDR address''))"
proof -
  have h: "DeletionTimestamp (ObjectMeta deletingIPPool) \<noteq> None"
    by (simp add: deletingIPPool_def)
  have c: "Create failingUtil exampleWebhook exampleValidator deletingIPPool =
     Err (Wrapped ''could not create %s %s/%s because %w'' [''IPPool'', ''default'', ''pool1'']
            (Error ''invalid CIDR address''))"
    by (simp add: Create_def failingUtil_def exampleWebhook_def deletingIPPool_def)
  from Update_deletion_short_circuit [OF h, of failingUtil exampleWebhook exampleValidator] h c
  show ?thesis by (simp only: simp_thms)
qed

text \<open>
  Claim C4. \<open>Delete\<close> follows the dependency lookup. With no dependent the deletion is
  accepted. With one or more dependents it is rejected, and the error says that the pool is
  still used by the dependents, named \<open>namespace/name\<close> and joined by \<open>", "\<close>, which
  must be removed at first: every dependent's \<open>namespace/name\<close> is a part of the list.
  When the lookup fails, \<open>checkVmNetCfgs\<close> returns the lookup's error as it is, and
  \<open>Delete\<close> hands it to the caller under the format \<open>DeleteErr\<close>.
\<close>

theorem Delete_dependents:
  "(WhoUseIPPool util (vmnetcfgCache v) ipPool = Inr [] \<longrightarrow> Delete util webhook v ipPool = Ok) \<and>
   (WhoUseIPPool util (vmnetcfgCache v) ipPool = Inr ds \<and> ds \<noteq> [] \<longrightarrow>
      Delete util webhook v ipPool =
        Err (Wrapped (DeleteErr webhook)
               [Kind (TypeMeta ipPool), Namespace (ObjectMeta ipPool), Name (ObjectMeta ipPool)]
               (Error (''it'' @ [CHR 0x27] @ ''s still used by VirtualMachineNetworkConfig(s) '' @
                       Join (map (\<lambda>d. Namespace d @ ''/'' @ Name d) ds) '', '' @
                       '', which must be removed at first''))) \<and>
      (\<forall>d \<in> set ds. \<exists>pre post.
         Join (map (\<lambda>d. Namespace d @ ''/'' @ Name d) ds) '', '' =
           pre @ (Namespace d @ ''/'' @ Name d) @ post)) \<and>
   (WhoUseIPPool util (vmnetcfgCache v) ipPool = Inl e \<longrightarrow>
      checkVmNetCfgs util v ipPool = Some e \<and>
      Delete util webhook v ipPool =
        Err (Wrapped (DeleteErr webhook)
               [Kind (TypeMeta ipPool), Namespace (ObjectMeta ipPool), Name (ObjectMeta ipPool)] e))"
  using Join_contains [where f = "\<lambda>d. Namespace d @ ''/'' @ Name d" and ds = ds and sep = "'', ''"]
  by (auto simp: Delete_def checkVmNetCfgs_def)

theorem Delete_dependents_witness:
  "WhoUseIPPool exampleUtil (vmnetcfgCache exampleValidator) exampleIPPool = Inr [] \<and>
   Delete exampleUtil exampleWebhook exampleValidator exampleIPPool = Ok \<and>
   WhoUseIPPool usedUtil (vmnetcfgCache exampleValidator) exampleIPPool = Inr exampleDependents \<and>
   exampleDependents \<noteq> [] \<and>
   Delete usedUtil exampleWebhook exampleValidator exampleIPPool =
     Err (Wrapped ''could not delete %s %s/%s because %w'' [''IPPool'', ''default'', ''pool1'']
            (Error (''it'' @ [CHR 0x27] @
               ''s still used by VirtualMachineNetworkConfig(s) default/vm1, prod/vm2, which must be removed at first''))) \<and>
   WhoUseIPPool failingUtil (vmnetcfgCache exampleValidator) exampleIPPool =
     Inl (Error ''index not found'') \<and>
   Delete failingUtil exampleWebhook exampleValidator exampleIPPool =
     Err (Wrapped ''could not delete %s %s/%s because %w'' [''IPPool'', ''default'', ''pool1'']
            (Error ''index not found''))"
proof -
  have a: "WhoUseIPPool exampleUtil (vmnetcfgCache exampleValidator) exampleIPPool = Inr []"
    by (simp add: exampleUtil_def)
  have b: "WhoUseIPPool usedUtil (vmnetcfgCache exampleValidator) exampleIPPool = Inr exampleDependents"
    by (simp add: usedUtil_def)
  have b': "exampleDependents \<noteq> []"
    by (simp add: exampleDependents_def)
  have c: "WhoUseIPPool failingUtil (vmnetcfgCache exampleValidator) exampleIPPool =
             Inl (Error ''index not found'')"
    by (simp add: failingUtil_def)
  have w: "Wrapped (DeleteErr exampleWebhook)
             [Kind (TypeMeta exampleIPPool), Namespace (ObjectMeta exampleIPPool),
              Name (ObjectMeta exampleIPPool)] =
           Wrapped ''could not delete %s %s/%s because %w'' [''IPPool'', ''default'', ''pool1'']"
    by (simp add: exampleWebhook_def exampleIPPool_def)
  have j: "''it'' @ [CHR 0x27] @ ''s still used by VirtualMachineNetworkConfig(s) '' @
             Join (map (\<lambda>d. Namespace d @ ''/'' @ Name d) exampleDependents) '', '' @
             '', which must be removed at first'' =
           ''it'' @ [CHR 0x27] @
             ''s still used by VirtualMachineNetworkConfig(s) default/vm1, prod/vm2, which must be removed at first''"
    by (simp add: exampleDependents_def)
  from Delete_dependents [of exampleUtil exampleValidator exampleIPPool exampleWebhook "[]"] a
  have 1: "Delete exampleUtil exampleWebhook exampleValidator exampleIPPool = Ok"
    by blast
  from Delete_dependents [of usedUtil exampleValidator exampleIPPool exampleWebhook exampleDependents] b b'
  have 2: "Delete usedUtil exampleWebhook exampleValidator exampleIPPool =
        Err (Wrapped (DeleteErr exampleWebhook)
               [Kind (TypeMeta exampleIPPool), Namespace (ObjectMeta exampleIPPool),
                Name (ObjectMeta exampleIPPool)]
               (Error (''it'' @ [CHR 0x27] @ ''s still used by VirtualMachineNetworkConfig(s) '' @
                       Join (map (\<lambda>d. Namespace d @ ''/'' @ Name d) exampleDependents) '', '' @
                       '', which must be removed at first'')))"
    by blast
  from Delete_dependents [of failingUtil exampleValidator exampleIPPool exampleWebhook _ "Error ''index not found''"] c
  have 3: "Delete failingUtil exampleWebhook exampleValidator exampleIPPool =
        Err (Wrapped (DeleteErr exampleWebhook)
               [Kind (TypeMeta exampleIPPool), Namespace (ObjectMeta exampleIPPool),
                Name (ObjectMeta exampleIPPool)] (Error ''index not found''))"
    by blast
  from 1 2 3 a b b' c w j show ?thesis by (simp only: simp_thms)
qed

section \<open>The network existence check\<close>



end
